theory Spec2Isabelle
  imports Complex_Main "HOL-Library.Word"
begin

section \<open>Strings, numbers and unknown values\<close>

text \<open>
  A JavaScript string is a sequence of 16-bit code units, and \<open>s.length\<close> counts them.
  String literals of the source are written \<open>lit ''...''\<close>, one code unit per character.
\<close>

type_synonym js_string = "16 word list"

definition lit :: "string \<Rightarrow> js_string" where
  "lit s = map of_char s"

text \<open>
  A \<open>number\<close> is a double: a finite value, which is a rational, or one of \<open>NaN\<close>,
  \<open>Infinity\<close> and \<open>-Infinity\<close>. Every rational is admitted as a finite value, so what
  holds for all of them holds for the doubles among them. The two zeros compare and print
  alike and are one value here. \<open>less_number a b\<close> is the comparison \<open>a < b\<close> of the language (and \<open>a > b\<close> is
  \<open>less_number b a\<close>): false whenever an operand is \<open>NaN\<close>.
\<close>

datatype number =
    Finite rat
  | NaN
  | Infinity
  | MinusInfinity

fun less_number :: "number \<Rightarrow> number \<Rightarrow> bool" where
  "less_number (Finite a) (Finite b) = (a < b)"
| "less_number (Finite a) Infinity = True"
| "less_number MinusInfinity (Finite b) = True"
| "less_number MinusInfinity Infinity = True"
| "less_number a b = False"

text \<open>\<open>value.length\<close>, the number of code units, as a number.\<close>

definition string_length :: "js_string \<Rightarrow> number" where
  "string_length s = Finite (of_nat (length s))"

text \<open>
  A template literal turns a number into a string by the language's \<open>Number::toString\<close>.
  That gives \<open>NaN\<close>, \<open>Infinity\<close> and \<open>-Infinity\<close> their names and a safe integer (an
  integer of magnitude at most \<open>2^53 - 1\<close>) its decimal digits, with a minus sign when it is
  negative. For every other finite number (a fraction, or a magnitude of \<open>2^53\<close> and more,
  where the shortest digits that read back as the same double and, from \<open>1e21\<close>, the exponent
  form are printed) the result is taken as the parameter \<open>fmt\<close>, which every function that
  prints a number receives; nothing is assumed about it.
\<close>

definition is_safe_integer :: "rat \<Rightarrow> bool" where
  "is_safe_integer q \<longleftrightarrow> of_int \<lfloor>q\<rfloor> = q \<and> \<bar>q\<bar> \<le> 2 ^ 53 - 1"

definition digit :: "nat \<Rightarrow> 16 word" where
  "digit d = lit ''0123456789'' ! d"

fun nat_toString :: "nat \<Rightarrow> js_string" where
  "nat_toString n =
     (if n < 10 then [digit n] else nat_toString (n div 10) @ [digit (n mod 10)])"

declare nat_toString.simps [simp del]

definition int_toString :: "int \<Rightarrow> js_string" where
  "int_toString i =
     (if i < 0 then lit ''-'' @ nat_toString (nat (- i)) else nat_toString (nat i))"

fun number_toString :: "(rat \<Rightarrow> js_string) \<Rightarrow> number \<Rightarrow> js_string" where
  "number_toString fmt NaN = lit ''NaN''"
| "number_toString fmt Infinity = lit ''Infinity''"
| "number_toString fmt MinusInfinity = lit ''-Infinity''"
| "number_toString fmt (Finite q) =
     (if is_safe_integer q then int_toString \<lfloor>q\<rfloor> else fmt q)"

text \<open>
  The argument of \<open>go\<close> has type \<open>unknown\<close>: any value of the language. Only its runtime
  type matters to the validator, and for a string its contents.
\<close>

datatype js_value =
    JSNull
  | JSUndefined
  | is_string: JSString (the_string: js_string)
  | JSNumber number
  | JSBoolean bool
  | JSBigInt int
  | JSSymbol
  | JSFunction
  | JSObject

fun typeof :: "js_value \<Rightarrow> js_string" where
  "typeof JSNull = lit ''object''"
| "typeof JSUndefined = lit ''undefined''"
| "typeof (JSString s) = lit ''string''"
| "typeof (JSNumber n) = lit ''number''"
| "typeof (JSBoolean b) = lit ''boolean''"
| "typeof (JSBigInt i) = lit ''bigint''"
| "typeof JSSymbol = lit ''symbol''"
| "typeof JSFunction = lit ''function''"
| "typeof JSObject = lit ''object''"

section \<open>The rule model\<close>

text \<open>\<open>Result<T>\<close>: \<open>{ ok: true, value: T } | { ok: false, message: string }\<close>.\<close>

datatype 't Result =
    ok: Success (result_value: 't)
  | Failure (message: js_string)

text \<open>\<open>StringRule\<close>, a union tagged by its \<open>type\<close> field.\<close>

datatype StringRule =
    Equal js_string
  | NotEqual js_string
  | MinLength number
  | MaxLength number

fun rule_type :: "StringRule \<Rightarrow> js_string" where
  "rule_type (Equal v) = lit ''equal''"
| "rule_type (NotEqual v) = lit ''notEqual''"
| "rule_type (MinLength n) = lit ''minLength''"
| "rule_type (MaxLength n) = lit ''maxLength''"

section \<open>StringValidator\<close>

text \<open>
  The class has one field, \<open>rules?: StringRule[]\<close>, which may be \<open>undefined\<close>
  (\<open>None\<close>). Spreading \<open>undefined\<close> into an array literal raises a TypeError; it is the
  only operation of the class that can throw.
\<close>

record StringValidator =
  rules :: "StringRule list option"

datatype js_error = TypeError

text \<open>
  \<open>constructor(private rules?: StringRule[])\<close> stores its argument, then replaces
  anything that is not an array by the empty array.
\<close>

definition constructor :: "StringRule list option \<Rightarrow> StringValidator" where
  "constructor init =
     (let this = \<lparr>rules = init\<rparr>
      in if rules this = None then this\<lparr>rules := Some []\<rparr> else this)"

text \<open>
  \<open>addRule\<close>: \<open>filtered\<close> stays \<open>undefined\<close> when \<open>this.rules\<close> is, and
  \<open>[...filtered, rule]\<close> throws then.
\<close>

definition addRule :: "StringRule \<Rightarrow> StringValidator \<Rightarrow> js_error + StringRule list" where
  "addRule rule this =
     (let filtered =
        (case rules this of
           Some rs \<Rightarrow> Some (filter (\<lambda>r. rule_type r \<noteq> rule_type rule) rs)
         | None \<Rightarrow> None)
      in case filtered of
           Some f \<Rightarrow> Inr (f @ [rule])
         | None \<Rightarrow> Inl TypeError)"

text \<open>
  Every configuration method is \<open>this.rules = this.addRule(r); return this\<close>: the
  validator is returned with its field updated, or the exception of \<open>addRule\<close> goes on.
\<close>

definition assign_rules :: "js_error + StringRule list \<Rightarrow> StringValidator \<Rightarrow> js_error + StringValidator" where
  "assign_rules added this =
     (case added of
        Inl e \<Rightarrow> Inl e
      | Inr rs \<Rightarrow> Inr (this\<lparr>rules := Some rs\<rparr>))"

definition equals :: "js_string \<Rightarrow> StringValidator \<Rightarrow> js_error + StringValidator" where
  "equals v this = assign_rules (addRule (Equal v) this) this"

definition notEquals :: "js_string \<Rightarrow> StringValidator \<Rightarrow> js_error + StringValidator" where
  "notEquals v this = assign_rules (addRule (NotEqual v) this) this"

definition minLength :: "number \<Rightarrow> StringValidator \<Rightarrow> js_error + StringValidator" where
  "minLength n this = assign_rules (addRule (MinLength n) this) this"

definition maxLength :: "number \<Rightarrow> StringValidator \<Rightarrow> js_error + StringValidator" where
  "maxLength n this = assign_rules (addRule (MaxLength n) this) this"

definition notEmpty :: "StringValidator \<Rightarrow> js_error + StringValidator" where
  "notEmpty this = assign_rules (addRule (MinLength (Finite 1)) this) this"

definition empty_method :: "StringValidator \<Rightarrow> js_error + StringValidator" where
  "empty_method this = assign_rules (addRule (MaxLength (Finite 0)) this) this"

text \<open>
  \<open>checkRule\<close>. The \<open>default\<close> branch of the source's \<open>switch\<close> has no counterpart: the
  four cases cover the type \<open>StringRule\<close>.
\<close>

fun checkRule :: "(rat \<Rightarrow> js_string) \<Rightarrow> StringRule \<Rightarrow> js_string \<Rightarrow> js_string Result" where
  "checkRule fmt (Equal v) val =
     (if v \<noteq> val
      then Failure (lit ''Value was expected to be '' @ v @ lit '' but was '' @ val @ lit ''.'')
      else Success val)"
| "checkRule fmt (NotEqual v) val =
     (if v = val
      then Failure (lit ''Value must not be '' @ v @ lit ''.'')
      else Success val)"
| "checkRule fmt (MinLength n) val =
     (if less_number (string_length val) n
      then Failure (lit ''String length must be greater than or equal to '' @ number_toString fmt n
                    @ lit '' but was '' @ number_toString fmt (string_length val) @ lit ''.'')
      else Success val)"
| "checkRule fmt (MaxLength n) val =
     (if less_number n (string_length val)
      then Failure (lit ''String length must be less than or equal to '' @ number_toString fmt n
                    @ lit '' but was '' @ number_toString fmt (string_length val) @ lit ''.'')
      else Success val)"

text \<open>
  The \<open>for\<close> loop of \<open>go\<close> with the \<open>return\<close> that follows it: the first result
  that is not ok is returned, and when the rules run out the value is.
\<close>

fun go_loop :: "(rat \<Rightarrow> js_string) \<Rightarrow> StringRule list \<Rightarrow> js_string \<Rightarrow> js_string Result" where
  "go_loop fmt [] val = Success val"
| "go_loop fmt (rule # rest) val =
     (let result = checkRule fmt rule val
      in if \<not> ok result then result else go_loop fmt rest val)"

text \<open>
  \<open>go\<close> takes the validator and returns it beside the result, so that what a call does
  to the validator can be stated.
\<close>

definition go :: "(rat \<Rightarrow> js_string) \<Rightarrow> js_value \<Rightarrow> StringValidator \<Rightarrow> js_string Result \<times> StringValidator" where
  "go fmt val this =
     (if val = JSNull
      then (Failure (lit ''StringValidator expected a string but received null.''), this)
      else if val = JSUndefined
      then (Failure (lit ''StringValidator expected a string but received undefined.''), this)
      else if typeof val \<noteq> lit ''string''
      then (Failure (lit ''StringValidator expected a string but received '' @ typeof val @ lit ''.''), this)
      else (case rules this of
              Some rs \<Rightarrow> (go_loop fmt rs (the_string val), this)
            | None \<Rightarrow> (Success (the_string val), this)))"

text \<open>
  The rules that a call of \<open>go\<close> hands to \<open>checkRule\<close>, in the order of the calls: the
  same control flow as \<open>go\<close>, recording the calls instead of the result.
\<close>

fun loop_checked :: "(rat \<Rightarrow> js_string) \<Rightarrow> StringRule list \<Rightarrow> js_string \<Rightarrow> StringRule list" where
  "loop_checked fmt [] val = []"
| "loop_checked fmt (rule # rest) val =
     (let result = checkRule fmt rule val
      in if \<not> ok result then [rule] else rule # loop_checked fmt rest val)"

definition go_checked :: "(rat \<Rightarrow> js_string) \<Rightarrow> js_value \<Rightarrow> StringValidator \<Rightarrow> StringRule list" where
  "go_checked fmt val this =
     (if val = JSNull then []
      else if val = JSUndefined then []
      else if typeof val \<noteq> lit ''string'' then []
      else (case rules this of
              Some rs \<Rightarrow> loop_checked fmt rs (the_string val)
            | None \<Rightarrow> []))"

section \<open>Callers\<close>

text \<open>Chaining: the next method is called on what the previous one returned.\<close>

definition and_then :: "js_error + 'a \<Rightarrow> ('a \<Rightarrow> js_error + 'b) \<Rightarrow> js_error + 'b" where
  "and_then r f = (case r of Inl e \<Rightarrow> Inl e | Inr x \<Rightarrow> f x)"

text \<open>
  \<open>const validator = new StringValidator().notEmpty().maxLength(20).notEquals("foo")\<close>
\<close>

definition validator :: "js_error + StringValidator" where
  "validator =
     and_then (and_then (notEmpty (constructor None)) (maxLength (Finite 20))) (notEquals (lit ''foo''))"

text \<open>
  An arbitrary client. A configuration call is one of the six chaining methods with its
  argument; \<open>config_rule\<close> is the rule which that method hands to \<open>addRule\<close>.
\<close>

datatype config_call =
    CallEquals js_string
  | CallNotEquals js_string
  | CallMinLength number
  | CallMaxLength number
  | CallNotEmpty
  | CallEmpty

fun configure :: "config_call \<Rightarrow> StringValidator \<Rightarrow> js_error + StringValidator" where
  "configure (CallEquals v) this = equals v this"
| "configure (CallNotEquals v) this = notEquals v this"
| "configure (CallMinLength n) this = minLength n this"
| "configure (CallMaxLength n) this = maxLength n this"
| "configure CallNotEmpty this = notEmpty this"
| "configure CallEmpty this = empty_method this"

fun config_rule :: "config_call \<Rightarrow> StringRule" where
  "config_rule (CallEquals v) = Equal v"
| "config_rule (CallNotEquals v) = NotEqual v"
| "config_rule (CallMinLength n) = MinLength n"
| "config_rule (CallMaxLength n) = MaxLength n"
| "config_rule CallNotEmpty = MinLength (Finite 1)"
| "config_rule CallEmpty = MaxLength (Finite 0)"

text \<open>A chain of configuration calls, \<open>this.c1(..).c2(..)...\<close>.\<close>

fun configure_all :: "config_call list \<Rightarrow> StringValidator \<Rightarrow> js_error + StringValidator" where
  "configure_all [] this = Inr this"
| "configure_all (c # cs) this = and_then (configure c this) (configure_all cs)"

text \<open>
  Any sequence of calls of the public methods on one validator. The results of the
  \<open>go\<close> calls are collected in order; an exception ends the run.
\<close>

datatype method_call =
    Configure config_call
  | is_go: Go js_value

fun perform :: "(rat \<Rightarrow> js_string) \<Rightarrow> method_call \<Rightarrow> StringValidator \<Rightarrow> js_error + (js_string Result list \<times> StringValidator)" where
  "perform fmt (Configure c) this = and_then (configure c this) (\<lambda>t. Inr ([], t))"
| "perform fmt (Go val) this = (case go fmt val this of (r, t) \<Rightarrow> Inr ([r], t))"

fun run :: "(rat \<Rightarrow> js_string) \<Rightarrow> method_call list \<Rightarrow> StringValidator \<Rightarrow> js_error + (js_string Result list \<times> StringValidator)" where
  "run fmt [] this = Inr ([], this)"
| "run fmt (c # cs) this =
     and_then (perform fmt c this)
       (\<lambda>(out, t). and_then (run fmt cs t) (\<lambda>(outs, t'). Inr (out @ outs, t')))"

text \<open>The invariant of the data model: no two stored rules have the same \<open>type\<close>.\<close>

definition one_rule_per_kind :: "StringValidator \<Rightarrow> bool" where
  "one_rule_per_kind this =
     (case rules this of Some rs \<Rightarrow> distinct (map rule_type rs) | None \<Rightarrow> True)"

section \<open>Basic facts\<close>

text \<open>
  Decimal digits for the safe integers; a fraction and \<open>1e21\<close> are left to \<open>fmt\<close>.
\<close>

lemma floor_example: "\<lfloor>5 / 2 :: rat\<rfloor> = 2" "\<lfloor>- 1 :: rat\<rfloor> = - 1"
  by (simp_all add: floor_eq_iff)

lemma not_safe_integer_example: "\<not> is_safe_integer (5 / 2)"
  by (simp add: is_safe_integer_def floor_example)

lemma number_toString_examples:
  "number_toString fmt (Finite 0) = lit ''0''"
  "number_toString fmt (Finite 20) = lit ''20''"
  "number_toString fmt (Finite 1234) = lit ''1234''"
  "number_toString fmt (Finite (- 15)) = lit ''-15''"
  "number_toString fmt (Finite (5 / 2)) = fmt (5 / 2)"
  "number_toString fmt (Finite (10 ^ 21)) = fmt (10 ^ 21)"
  by (simp_all add: not_safe_integer_example)
     (simp_all add: is_safe_integer_def int_toString_def nat_toString.simps digit_def lit_def)

text \<open>
  The type test of \<open>go\<close> lets exactly the strings through, and the four \<open>type\<close> tags are
  pairwise different.
\<close>

lemma typeof_string_iff: "typeof val = lit ''string'' \<longleftrightarrow> is_string val"
  by (cases val) (simp_all add: lit_def)

lemma rule_type_cases:
  "rule_type r = lit ''equal'' \<longleftrightarrow> (\<exists>v. r = Equal v)"
  "rule_type r = lit ''notEqual'' \<longleftrightarrow> (\<exists>v. r = NotEqual v)"
  "rule_type r = lit ''minLength'' \<longleftrightarrow> (\<exists>n. r = MinLength n)"
  "rule_type r = lit ''maxLength'' \<longleftrightarrow> (\<exists>n. r = MaxLength n)"
  by (cases r; simp add: lit_def)+

lemma go_string:
  "go fmt (JSString s) this = ((case rules this of Some rs \<Rightarrow> go_loop fmt rs s | None \<Rightarrow> Success s), this)"
  by (simp add: go_def typeof_string_iff split: option.split)

lemma go_checked_string:
  "go_checked fmt (JSString s) this = (case rules this of Some rs \<Rightarrow> loop_checked fmt rs s | None \<Rightarrow> [])"
  by (simp add: go_checked_def typeof_string_iff split: option.split)

lemma go_not_string:
  "\<not> is_string val \<Longrightarrow>
     go fmt val this =
       (Failure (lit ''StringValidator expected a string but received ''
                 @ (if val = JSNull then lit ''null'' else typeof val) @ lit ''.''), this)"
  by (cases val) (simp_all add: go_def lit_def)

lemma go_checked_not_string: "\<not> is_string val \<Longrightarrow> go_checked fmt val this = []"
  by (simp add: go_checked_def typeof_string_iff)

lemma snd_go: "snd (go fmt val this) = this"
  by (simp add: go_def split: option.split)

lemma perform_Go: "perform fmt (Go val) this = Inr ([fst (go fmt val this)], this)"
  by (simp add: case_prod_beta snd_go)

lemma validator_self: "rules this = Some rs \<Longrightarrow> this\<lparr>rules := Some rs\<rparr> = this"
  by (cases this) simp

lemma assign_addRule:
  "rules this = Some rs \<Longrightarrow>
     assign_rules (addRule r this) this
       = Inr (this\<lparr>rules := Some (filter (\<lambda>x. rule_type x \<noteq> rule_type r) rs @ [r])\<rparr>)"
  by (simp add: assign_rules_def addRule_def)

lemma configure_eq: "configure c this = assign_rules (addRule (config_rule c) this) this"
  by (cases c)
     (simp_all add: equals_def notEquals_def minLength_def maxLength_def notEmpty_def
        empty_method_def)

lemma configure_Some:
  "rules this = Some rs \<Longrightarrow>
     configure c this
       = Inr (this\<lparr>rules := Some (filter (\<lambda>x. rule_type x \<noteq> rule_type (config_rule c)) rs
                                   @ [config_rule c])\<rparr>)"
  by (simp add: configure_eq assign_addRule)

lemma kinds_after_add:
  "rule_type ` set (filter (\<lambda>x. rule_type x \<noteq> rule_type r) rs @ [r])
     = insert (rule_type r) (rule_type ` set rs)"
  by auto

lemma distinct_after_add:
  "distinct (map rule_type rs) \<Longrightarrow>
     distinct (map rule_type (filter (\<lambda>x. rule_type x \<noteq> rule_type r) rs @ [r]))"
  by (auto simp: distinct_map_filter)

lemma one_kind_after_add:
  "filter (\<lambda>x. rule_type x = rule_type r) (filter (\<lambda>x. rule_type x \<noteq> rule_type r) rs @ [r]) = [r]"
  by (induction rs) auto

lemma configure_all_Some:
  "rules this = Some rs \<Longrightarrow>
     \<exists>rs'. configure_all cs this = Inr (this\<lparr>rules := Some rs'\<rparr>)
        \<and> rule_type ` set rs' = rule_type ` set rs \<union> (\<lambda>c. rule_type (config_rule c)) ` set cs
        \<and> (distinct (map rule_type rs) \<longrightarrow> distinct (map rule_type rs'))"
proof (induction cs arbitrary: this rs)
  case Nil
  then show ?case by (intro exI [of _ rs]) (simp add: validator_self)
next
  case (Cons c cs)
  let ?rs1 = "filter (\<lambda>x. rule_type x \<noteq> rule_type (config_rule c)) rs @ [config_rule c]"
  let ?t = "this\<lparr>rules := Some ?rs1\<rparr>"
  have step: "configure c this = Inr ?t"
    using Cons.prems by (rule configure_Some)
  have "rules ?t = Some ?rs1" by simp
  from Cons.IH [OF this] obtain rs' where
    r: "configure_all cs ?t = Inr (?t\<lparr>rules := Some rs'\<rparr>)"
    and k: "rule_type ` set rs' = rule_type ` set ?rs1 \<union> (\<lambda>c. rule_type (config_rule c)) ` set cs"
    and d: "distinct (map rule_type ?rs1) \<longrightarrow> distinct (map rule_type rs')"
    by blast
  have "configure_all (c # cs) this = Inr (this\<lparr>rules := Some rs'\<rparr>)"
    using step r by (simp add: and_then_def)
  moreover have "rule_type ` set rs' = rule_type ` set rs \<union> (\<lambda>c. rule_type (config_rule c)) ` set (c # cs)"
    unfolding k kinds_after_add by auto
  moreover have "distinct (map rule_type rs) \<longrightarrow> distinct (map rule_type rs')"
    using d distinct_after_add by blast
  ultimately show ?case by blast
qed

lemma configure_all_fresh_kinds:
  "rules this = Some rs \<Longrightarrow> distinct (map (\<lambda>c. rule_type (config_rule c)) cs) \<Longrightarrow>
   (\<lambda>c. rule_type (config_rule c)) ` set cs \<inter> rule_type ` set rs = {} \<Longrightarrow>
     configure_all cs this = Inr (this\<lparr>rules := Some (rs @ map config_rule cs)\<rparr>)"
proof (induction cs arbitrary: this rs)
  case Nil
  then show ?case by (simp add: validator_self)
next
  case (Cons c cs)
  have keep: "filter (\<lambda>x. rule_type x \<noteq> rule_type (config_rule c)) rs = rs"
    using Cons.prems(3) by (auto simp: filter_id_conv image_iff)
  let ?t = "this\<lparr>rules := Some (rs @ [config_rule c])\<rparr>"
  have step: "configure c this = Inr ?t"
    using configure_Some [OF Cons.prems(1), of c] by (simp add: keep)
  have "configure_all cs ?t = Inr (?t\<lparr>rules := Some ((rs @ [config_rule c]) @ map config_rule cs)\<rparr>)"
  proof (rule Cons.IH)
    show "rules ?t = Some (rs @ [config_rule c])" by simp
    show "distinct (map (\<lambda>c. rule_type (config_rule c)) cs)" using Cons.prems(2) by simp
    show "(\<lambda>c. rule_type (config_rule c)) ` set cs \<inter> rule_type ` set (rs @ [config_rule c]) = {}"
      using Cons.prems(2,3) by auto
  qed
  then show ?case using step by (simp add: and_then_def)
qed

lemma run_Some:
  "rules this = Some rs \<Longrightarrow>
     \<exists>outs rs'. run fmt cs this = Inr (outs, this\<lparr>rules := Some rs'\<rparr>)
        \<and> length outs = length (filter is_go cs)
        \<and> (distinct (map rule_type rs) \<longrightarrow> distinct (map rule_type rs'))"
proof (induction cs arbitrary: this rs)
  case Nil
  then show ?case by (intro exI [of _ "[]"] exI [of _ rs]) (simp add: validator_self)
next
  case (Cons c cs)
  show ?case
  proof (cases c)
    case (Configure k)
    let ?rs1 = "filter (\<lambda>x. rule_type x \<noteq> rule_type (config_rule k)) rs @ [config_rule k]"
    let ?t = "this\<lparr>rules := Some ?rs1\<rparr>"
    have step: "perform fmt c this = Inr ([], ?t)"
      using configure_Some [OF Cons.prems, of k] Configure by (simp add: and_then_def)
    have "rules ?t = Some ?rs1" by simp
    from Cons.IH [OF this] obtain outs rs' where
      r: "run fmt cs ?t = Inr (outs, ?t\<lparr>rules := Some rs'\<rparr>)"
      and l: "length outs = length (filter is_go cs)"
      and d: "distinct (map rule_type ?rs1) \<longrightarrow> distinct (map rule_type rs')"
      by blast
    have "run fmt (c # cs) this = Inr (outs, this\<lparr>rules := Some rs'\<rparr>)"
      using step r by (simp add: and_then_def)
    moreover have "length outs = length (filter is_go (c # cs))"
      using l Configure by simp
    moreover have "distinct (map rule_type rs) \<longrightarrow> distinct (map rule_type rs')"
      using d distinct_after_add by blast
    ultimately show ?thesis by blast
  next
    case (Go val)
    have step: "perform fmt c this = Inr ([fst (go fmt val this)], this)"
      using Go by (simp only: perform_Go)
    from Cons.IH [OF Cons.prems] obtain outs rs' where
      r: "run fmt cs this = Inr (outs, this\<lparr>rules := Some rs'\<rparr>)"
      and l: "length outs = length (filter is_go cs)"
      and d: "distinct (map rule_type rs) \<longrightarrow> distinct (map rule_type rs')"
      by blast
    have "run fmt (c # cs) this = Inr (fst (go fmt val this) # outs, this\<lparr>rules := Some rs'\<rparr>)"
      using step r by (simp add: and_then_def)
    moreover have "length (fst (go fmt val this) # outs) = length (filter is_go (c # cs))"
      using l Go by simp
    ultimately show ?thesis using d by blast
  qed
qed

lemma rules_constructor:
  "rules (constructor init) = Some (case init of Some rs \<Rightarrow> rs | None \<Rightarrow> [])"
  by (simp add: constructor_def Let_def split: option.split)

lemma go_loop_split:
  "\<forall>p\<in>set pre. ok (checkRule fmt p s) \<Longrightarrow> \<not> ok (checkRule fmt r s) \<Longrightarrow>
     go_loop fmt (pre @ r # post) s = checkRule fmt r s"
  by (induction pre) (simp_all add: Let_def)

lemma loop_checked_split:
  "\<forall>p\<in>set pre. ok (checkRule fmt p s) \<Longrightarrow> \<not> ok (checkRule fmt r s) \<Longrightarrow>
     loop_checked fmt (pre @ r # post) s = pre @ [r]"
  by (induction pre) (simp_all add: Let_def)

lemma go_loop_all_ok: "\<forall>p\<in>set rs. ok (checkRule fmt p s) \<Longrightarrow> go_loop fmt rs s = Success s"
  by (induction rs) (simp_all add: Let_def)

text \<open>
  The recorded calls and the result of the loop agree: the calls are a prefix of the stored
  rules, and the result is decided by the last rule that was checked.
\<close>

lemma loop_checked_prefix: "\<exists>post. rs = loop_checked fmt rs s @ post"
  by (induction rs) (auto simp: Let_def)

lemma go_loop_from_checked:
  "go_loop fmt rs s =
     (case loop_checked fmt rs s of
        [] \<Rightarrow> Success s
      | c # cs \<Rightarrow> (if ok (checkRule fmt (last (c # cs)) s) then Success s
                   else checkRule fmt (last (c # cs)) s))"
  by (induction rs) (auto simp: Let_def split: list.splits)

lemma checkRule_ok_value: "ok (checkRule fmt r s) \<Longrightarrow> checkRule fmt r s = Success s"
  by (cases r) (auto split: if_splits)

lemma go_loop_result: "ok (go_loop fmt rs s) \<Longrightarrow> go_loop fmt rs s = Success s"
  by (induction rs) (auto simp: Let_def split: if_splits)

lemma validator_rules:
  "validator = Inr \<lparr>rules = Some [MinLength (Finite 1), MaxLength (Finite 20), NotEqual (lit ''foo'')]\<rparr>"
  by (simp add: validator_def and_then_def notEmpty_def maxLength_def notEquals_def
      constructor_def assign_rules_def addRule_def lit_def)

section \<open>The sample validator\<close>

text \<open>
  C1. The validator of the source, \<open>new StringValidator().notEmpty().maxLength(20).notEquals("foo")\<close>,
  is built without an exception, and \<open>go\<close> on it rejects \<open>"foo"\<close> with
  "Value must not be foo.", accepts \<open>"bar"\<close> with the value \<open>"bar"\<close>, rejects the
  24 code units of \<open>"something longer than 20"\<close> with "String length must be less than or
  equal to 20 but was 24." and rejects the empty string with "String length must be greater
  than or equal to 1 but was 0.".
\<close>

theorem demo_validator_scenarios:
  "\<exists>v. validator = Inr v
     \<and> fst (go fmt (JSString (lit ''foo'')) v) = Failure (lit ''Value must not be foo.'')
     \<and> fst (go fmt (JSString (lit ''bar'')) v) = Success (lit ''bar'')
     \<and> length (lit ''something longer than 20'') = 24
     \<and> fst (go fmt (JSString (lit ''something longer than 20'')) v)
         = Failure (lit ''String length must be less than or equal to 20 but was 24.'')
     \<and> fst (go fmt (JSString (lit '''')) v)
         = Failure (lit ''String length must be greater than or equal to 1 but was 0.'')"
  unfolding validator_rules
  by (simp add: go_string string_length_def is_safe_integer_def int_toString_def
      nat_toString.simps digit_def lit_def)

section \<open>Values that are not strings\<close>

text \<open>
  C2. Whatever rules are stored, \<open>go\<close> on a value that is not a string fails with a
  message that names what it received: "null" for \<open>null\<close>, "undefined" for
  \<open>undefined\<close>, and \<open>typeof value\<close> for every other value (so "number" for 42). No
  rule is handed to \<open>checkRule\<close> for such a value, and the result does not depend on
  the validator.
\<close>

theorem go_rejects_non_strings:
  "fst (go fmt JSNull this) = Failure (lit ''StringValidator expected a string but received null.'')
   \<and> fst (go fmt JSUndefined this)
       = Failure (lit ''StringValidator expected a string but received undefined.'')
   \<and> fst (go fmt (JSNumber (Finite 42)) this)
       = Failure (lit ''StringValidator expected a string but received number.'')
   \<and> (\<not> is_string val \<and> val \<noteq> JSNull \<and> val \<noteq> JSUndefined \<longrightarrow>
        fst (go fmt val this)
          = Failure (lit ''StringValidator expected a string but received '' @ typeof val @ lit ''.''))
   \<and> (\<not> is_string val \<longrightarrow>
        \<not> ok (fst (go fmt val this)) \<and> go_checked fmt val this = []
        \<and> fst (go fmt val this) = fst (go fmt val that))"
  by (simp add: go_not_string go_checked_not_string) (simp add: lit_def)

theorem go_rejects_non_strings_witness:
  "\<not> is_string (JSBoolean True) \<and> JSBoolean True \<noteq> JSNull \<and> JSBoolean True \<noteq> JSUndefined
   \<and> fst (go (\<lambda>q. lit ''2.5'') (JSBoolean True) \<lparr>rules = Some [Equal (lit ''x'')]\<rparr>)
       = Failure (lit ''StringValidator expected a string but received boolean.'')
   \<and> go_checked (\<lambda>q. lit ''2.5'') (JSBoolean True) \<lparr>rules = Some [Equal (lit ''x'')]\<rparr> = []
   \<and> fst (go (\<lambda>q. lit ''2.5'') (JSBoolean True) \<lparr>rules = Some [Equal (lit ''x'')]\<rparr>)
       = fst (go (\<lambda>q. lit ''2.5'') (JSBoolean True) \<lparr>rules = Some []\<rparr>)"
  using go_rejects_non_strings [where fmt = "\<lambda>q. lit ''2.5''"
      and this = "\<lparr>rules = Some [Equal (lit ''x'')]\<rparr>" and val = "JSBoolean True"
      and that = "\<lparr>rules = Some []\<rparr>"]
  by (simp add: go_not_string lit_def)

section \<open>The four rules\<close>

text \<open>
  C3. \<open>checkRule\<close> on a string candidate \<open>c\<close>, for every rule: \<open>Equal v\<close> fails iff
  \<open>c\<close> differs from \<open>v\<close>, \<open>NotEqual v\<close> fails iff \<open>c\<close> equals \<open>v\<close>,
  \<open>MinLength n\<close> fails iff \<open>c.length < n\<close> and \<open>MaxLength n\<close> fails iff
  \<open>c.length > n\<close>, for every number \<open>n\<close> (a finite one, \<open>NaN\<close>, which never fails, or
  an infinity) and with the comparison of the language. Each failure carries the message of
  its template, with \<open>n\<close> and the length printed as a template literal prints a number; a
  rule that does not fail returns the candidate.
\<close>

theorem checkRule_semantics:
  "(\<not> ok (checkRule fmt (Equal v) c) \<longleftrightarrow> c \<noteq> v)
   \<and> (c \<noteq> v \<longrightarrow> checkRule fmt (Equal v) c
         = Failure (lit ''Value was expected to be '' @ v @ lit '' but was '' @ c @ lit ''.''))
   \<and> (\<not> ok (checkRule fmt (NotEqual v) c) \<longleftrightarrow> c = v)
   \<and> (c = v \<longrightarrow> checkRule fmt (NotEqual v) c
         = Failure (lit ''Value must not be '' @ v @ lit ''.''))
   \<and> (\<not> ok (checkRule fmt (MinLength n) c) \<longleftrightarrow> less_number (string_length c) n)
   \<and> (less_number (string_length c) n \<longrightarrow> checkRule fmt (MinLength n) c
         = Failure (lit ''String length must be greater than or equal to '' @ number_toString fmt n
                    @ lit '' but was '' @ number_toString fmt (string_length c) @ lit ''.''))
   \<and> (\<not> ok (checkRule fmt (MaxLength n) c) \<longleftrightarrow> less_number n (string_length c))
   \<and> (less_number n (string_length c) \<longrightarrow> checkRule fmt (MaxLength n) c
         = Failure (lit ''String length must be less than or equal to '' @ number_toString fmt n
                    @ lit '' but was '' @ number_toString fmt (string_length c) @ lit ''.''))
   \<and> (ok (checkRule fmt r c) \<longrightarrow> checkRule fmt r c = Success c)
   \<and> (less_number (string_length c) (Finite q) \<longleftrightarrow> of_nat (length c) < q)
   \<and> (less_number (Finite q) (string_length c) \<longleftrightarrow> of_nat (length c) > q)
   \<and> ok (checkRule fmt (MinLength NaN) c) \<and> ok (checkRule fmt (MaxLength NaN) c)
   \<and> \<not> ok (checkRule fmt (MinLength Infinity) c) \<and> ok (checkRule fmt (MaxLength Infinity) c)
   \<and> ok (checkRule fmt (MinLength MinusInfinity) c)
   \<and> \<not> ok (checkRule fmt (MaxLength MinusInfinity) c)"
  by (cases r) (auto simp: string_length_def)

theorem checkRule_semantics_witness:
  "lit ''ab'' \<noteq> lit ''abc''
   \<and> checkRule (\<lambda>q. lit ''2.5'') (Equal (lit ''abc'')) (lit ''ab'')
       = Failure (lit ''Value was expected to be abc but was ab.'')
   \<and> checkRule (\<lambda>q. lit ''2.5'') (NotEqual (lit ''ab'')) (lit ''ab'')
       = Failure (lit ''Value must not be ab.'')
   \<and> less_number (string_length (lit ''ab'')) (Finite 5)
   \<and> checkRule (\<lambda>q. lit ''2.5'') (MinLength (Finite 5)) (lit ''ab'')
       = Failure (lit ''String length must be greater than or equal to 5 but was 2.'')
   \<and> less_number (Finite (- 1)) (string_length (lit ''ab''))
   \<and> checkRule (\<lambda>q. lit ''2.5'') (MaxLength (Finite (- 1))) (lit ''ab'')
       = Failure (lit ''String length must be less than or equal to -1 but was 2.'')
   \<and> less_number (string_length (lit ''ab'')) (Finite (5 / 2))
   \<and> checkRule (\<lambda>q. lit ''2.5'') (MinLength (Finite (5 / 2))) (lit ''ab'')
       = Failure (lit ''String length must be greater than or equal to 2.5 but was 2.'')
   \<and> checkRule (\<lambda>q. lit ''2.5'') (MinLength Infinity) (lit ''ab'')
       = Failure (lit ''String length must be greater than or equal to Infinity but was 2.'')
   \<and> ok (checkRule (\<lambda>q. lit ''2.5'') (MaxLength (Finite 2)) (lit ''ab''))
   \<and> checkRule (\<lambda>q. lit ''2.5'') (MaxLength (Finite 2)) (lit ''ab'') = Success (lit ''ab'')"
proof -
  let ?F = "\<lambda>q::rat. lit ''2.5''"
  have h1: "lit ''ab'' \<noteq> lit ''abc''"
    by (simp add: lit_def)
  have h2: "less_number (string_length (lit ''ab'')) (Finite 5)"
    and h3: "less_number (Finite (- 1)) (string_length (lit ''ab''))"
    and h4: "less_number (string_length (lit ''ab'')) (Finite (5 / 2))"
    and h5: "less_number (string_length (lit ''ab'')) Infinity"
    by (simp_all add: string_length_def lit_def)
  have p: "number_toString ?F (Finite 5) = lit ''5''"
    "number_toString ?F (Finite (- 1)) = lit ''-1''"
    "number_toString ?F (Finite (5 / 2)) = lit ''2.5''"
    "number_toString ?F (string_length (lit ''ab'')) = lit ''2''"
    by (simp_all add: not_safe_integer_example string_length_def)
       (simp_all add: is_safe_integer_def floor_example int_toString_def nat_toString.simps
          digit_def lit_def)
  have a: "checkRule ?F (Equal (lit ''abc'')) (lit ''ab'')
      = Failure (lit ''Value was expected to be '' @ lit ''abc'' @ lit '' but was '' @ lit ''ab''
                 @ lit ''.'')"
    using checkRule_semantics [where fmt = ?F and v = "lit ''abc''" and c = "lit ''ab''"] h1
    by blast
  have b: "checkRule ?F (NotEqual (lit ''ab'')) (lit ''ab'')
      = Failure (lit ''Value must not be '' @ lit ''ab'' @ lit ''.'')"
    using checkRule_semantics [where fmt = ?F and v = "lit ''ab''" and c = "lit ''ab''"]
    by blast
  have c: "checkRule ?F (MinLength (Finite 5)) (lit ''ab'')
      = Failure (lit ''String length must be greater than or equal to ''
                 @ number_toString ?F (Finite 5) @ lit '' but was ''
                 @ number_toString ?F (string_length (lit ''ab'')) @ lit ''.'')"
    using checkRule_semantics [where fmt = ?F and c = "lit ''ab''" and n = "Finite 5"] h2
    by blast
  have d: "checkRule ?F (MaxLength (Finite (- 1))) (lit ''ab'')
      = Failure (lit ''String length must be less than or equal to ''
                 @ number_toString ?F (Finite (- 1)) @ lit '' but was ''
                 @ number_toString ?F (string_length (lit ''ab'')) @ lit ''.'')"
    using checkRule_semantics [where fmt = ?F and c = "lit ''ab''" and n = "Finite (- 1)"] h3
    by blast
  have e: "checkRule ?F (MinLength (Finite (5 / 2))) (lit ''ab'')
      = Failure (lit ''String length must be greater than or equal to ''
                 @ number_toString ?F (Finite (5 / 2)) @ lit '' but was ''
                 @ number_toString ?F (string_length (lit ''ab'')) @ lit ''.'')"
    using checkRule_semantics [where fmt = ?F and c = "lit ''ab''" and n = "Finite (5 / 2)"] h4
    by blast
  have f: "checkRule ?F (MinLength Infinity) (lit ''ab'')
      = Failure (lit ''String length must be greater than or equal to ''
                 @ number_toString ?F Infinity @ lit '' but was ''
                 @ number_toString ?F (string_length (lit ''ab'')) @ lit ''.'')"
    using checkRule_semantics [where fmt = ?F and c = "lit ''ab''" and n = Infinity] h5
    by blast
  have g: "ok (checkRule ?F (MaxLength (Finite 2)) (lit ''ab''))"
    by (simp add: string_length_def lit_def)
  have g': "checkRule ?F (MaxLength (Finite 2)) (lit ''ab'') = Success (lit ''ab'')"
    using checkRule_semantics [where fmt = ?F and c = "lit ''ab''" and r = "MaxLength (Finite 2)"] g
    by blast
  show ?thesis
    unfolding a b c d e f g' p
    using h1 h2 h3 h4 g by (simp add: lit_def)
qed

section \<open>Short circuit\<close>

text \<open>
  C4. If the rules before rule \<open>r\<close> pass on the candidate and \<open>r\<close> fails, then
  \<open>go\<close> returns the failure of \<open>r\<close>, the rules handed to \<open>checkRule\<close> are those up to
  and including \<open>r\<close>, and replacing the rules after \<open>r\<close> by any others changes neither
  the result nor the rules checked.
\<close>

theorem go_short_circuit:
  "rules this = Some (pre @ r # post) \<Longrightarrow> \<forall>p\<in>set pre. ok (checkRule fmt p s) \<Longrightarrow>
   \<not> ok (checkRule fmt r s) \<Longrightarrow>
     fst (go fmt (JSString s) this) = checkRule fmt r s
     \<and> go_checked fmt (JSString s) this = pre @ [r]
     \<and> (rules that = Some (pre @ r # post') \<longrightarrow>
          fst (go fmt (JSString s) that) = fst (go fmt (JSString s) this)
          \<and> go_checked fmt (JSString s) that = go_checked fmt (JSString s) this)"
  by (simp add: go_string go_checked_string go_loop_split loop_checked_split)

theorem go_short_circuit_witness:
  "ok (checkRule (\<lambda>q. lit ''2.5'') (MinLength (Finite 1)) (lit ''abc''))
   \<and> \<not> ok (checkRule (\<lambda>q. lit ''2.5'') (MaxLength (Finite 2)) (lit ''abc''))
   \<and> fst (go (\<lambda>q. lit ''2.5'') (JSString (lit ''abc''))
             \<lparr>rules = Some [MinLength (Finite 1), MaxLength (Finite 2), NotEqual (lit ''abc''),
                             Equal (lit ''z'')]\<rparr>)
       = Failure (lit ''String length must be less than or equal to 2 but was 3.'')
   \<and> go_checked (\<lambda>q. lit ''2.5'') (JSString (lit ''abc''))
             \<lparr>rules = Some [MinLength (Finite 1), MaxLength (Finite 2), NotEqual (lit ''abc''),
                             Equal (lit ''z'')]\<rparr>
       = [MinLength (Finite 1), MaxLength (Finite 2)]
   \<and> fst (go (\<lambda>q. lit ''2.5'') (JSString (lit ''abc''))
             \<lparr>rules = Some [MinLength (Finite 1), MaxLength (Finite 2), Equal (lit ''q'')]\<rparr>)
       = Failure (lit ''String length must be less than or equal to 2 but was 3.'')"
  using go_short_circuit [where fmt = "\<lambda>q. lit ''2.5''"
      and this = "\<lparr>rules = Some [MinLength (Finite 1), MaxLength (Finite 2), NotEqual (lit ''abc''),
                                   Equal (lit ''z'')]\<rparr>"
      and pre = "[MinLength (Finite 1)]" and r = "MaxLength (Finite 2)"
      and post = "[NotEqual (lit ''abc''), Equal (lit ''z'')]" and s = "lit ''abc''"
      and that = "\<lparr>rules = Some [MinLength (Finite 1), MaxLength (Finite 2), Equal (lit ''q'')]\<rparr>"
      and post' = "[Equal (lit ''q'')]"]
  by (simp add: string_length_def is_safe_integer_def int_toString_def nat_toString.simps
      digit_def lit_def)

section \<open>Replace by kind\<close>

lemma two_calls_same_kind:
  assumes "rules this = Some rs" and "rule_type (config_rule c') = rule_type (config_rule c)"
  shows "\<exists>rs'. and_then (configure c this) (configure c') = Inr (this\<lparr>rules := Some rs'\<rparr>)
           \<and> filter (\<lambda>x. rule_type x = rule_type (config_rule c')) rs' = [config_rule c']"
proof -
  let ?rs1 = "filter (\<lambda>x. rule_type x \<noteq> rule_type (config_rule c)) rs @ [config_rule c]"
  let ?t = "this\<lparr>rules := Some ?rs1\<rparr>"
  let ?rs2 = "filter (\<lambda>x. rule_type x \<noteq> rule_type (config_rule c')) ?rs1 @ [config_rule c']"
  have "configure c this = Inr ?t"
    using assms(1) by (rule configure_Some)
  moreover have "configure c' ?t = Inr (?t\<lparr>rules := Some ?rs2\<rparr>)"
    by (rule configure_Some) simp
  ultimately have "and_then (configure c this) (configure c') = Inr (this\<lparr>rules := Some ?rs2\<rparr>)"
    by (simp add: and_then_def)
  moreover have "filter (\<lambda>x. rule_type x = rule_type (config_rule c')) ?rs2 = [config_rule c']"
    by (rule one_kind_after_add)
  ultimately show ?thesis by blast
qed

lemma fresh_chain:
  assumes "distinct (map (\<lambda>c. rule_type (config_rule c)) cs)"
  shows "configure_all cs (constructor None) = Inr \<lparr>rules = Some (map config_rule cs)\<rparr>"
proof -
  have "configure_all cs (constructor None)
          = Inr ((constructor None)\<lparr>rules := Some ([] @ map config_rule cs)\<rparr>)"
    using assms by (intro configure_all_fresh_kinds) (simp_all add: rules_constructor)
  then show ?thesis by (simp add: constructor_def)
qed

lemma fresh_chain_count:
  "\<exists>rs'. configure_all cs (constructor None) = Inr \<lparr>rules = Some rs'\<rparr>
      \<and> length rs' = card ((\<lambda>c. rule_type (config_rule c)) ` set cs)"
proof -
  have "rules (constructor None) = Some []" by (simp add: rules_constructor)
  from configure_all_Some [OF this, of cs] obtain rs' where
    r: "configure_all cs (constructor None) = Inr ((constructor None)\<lparr>rules := Some rs'\<rparr>)"
    and k: "rule_type ` set rs' = (\<lambda>c. rule_type (config_rule c)) ` set cs"
    and d: "distinct (map rule_type rs')"
    by auto
  have "length rs' = length (map rule_type rs')" by simp
  also have "\<dots> = card (set (map rule_type rs'))" using d by (simp only: distinct_card)
  also have "\<dots> = card ((\<lambda>c. rule_type (config_rule c)) ` set cs)" using k by simp
  finally have "length rs' = card ((\<lambda>c. rule_type (config_rule c)) ` set cs)" .
  moreover have "configure_all cs (constructor None) = Inr \<lparr>rules = Some rs'\<rparr>"
    using r by (simp add: constructor_def)
  ultimately show ?thesis by blast
qed

text \<open>
  C5. On a validator whose rules are \<open>rs\<close>, each of the six configuration methods
  removes the rules of the new rule's \<open>type\<close> from \<open>rs\<close>, keeps the others in their order
  and appends the new rule. Hence two calls of one kind in sequence leave exactly one rule of
  that kind, the second call's; and a chain of calls on a new validator stores one rule for
  each kind configured, so calls of N distinct kinds store exactly their N rules, in call
  order.
\<close>

theorem replace_by_kind:
  "rules this = Some rs \<Longrightarrow>
     equals v this
       = Inr (this\<lparr>rules := Some (filter (\<lambda>x. rule_type x \<noteq> lit ''equal'') rs @ [Equal v])\<rparr>)
   \<and> notEquals v this
       = Inr (this\<lparr>rules := Some (filter (\<lambda>x. rule_type x \<noteq> lit ''notEqual'') rs @ [NotEqual v])\<rparr>)
   \<and> minLength n this
       = Inr (this\<lparr>rules := Some (filter (\<lambda>x. rule_type x \<noteq> lit ''minLength'') rs @ [MinLength n])\<rparr>)
   \<and> maxLength n this
       = Inr (this\<lparr>rules := Some (filter (\<lambda>x. rule_type x \<noteq> lit ''maxLength'') rs @ [MaxLength n])\<rparr>)
   \<and> notEmpty this
       = Inr (this\<lparr>rules := Some (filter (\<lambda>x. rule_type x \<noteq> lit ''minLength'') rs @ [MinLength (Finite 1)])\<rparr>)
   \<and> empty_method this
       = Inr (this\<lparr>rules := Some (filter (\<lambda>x. rule_type x \<noteq> lit ''maxLength'') rs @ [MaxLength (Finite 0)])\<rparr>)
   \<and> (rule_type (config_rule c') = rule_type (config_rule c) \<longrightarrow>
        (\<exists>rs'. and_then (configure c this) (configure c') = Inr (this\<lparr>rules := Some rs'\<rparr>)
           \<and> filter (\<lambda>x. rule_type x = rule_type (config_rule c')) rs' = [config_rule c']))
   \<and> (distinct (map (\<lambda>c. rule_type (config_rule c)) cs) \<longrightarrow>
        configure_all cs (constructor None) = Inr \<lparr>rules = Some (map config_rule cs)\<rparr>
        \<and> length (map config_rule cs) = length cs)
   \<and> (\<exists>rs'. configure_all cs (constructor None) = Inr \<lparr>rules = Some rs'\<rparr>
          \<and> length rs' = card ((\<lambda>c. rule_type (config_rule c)) ` set cs))"
proof -
  assume rs: "rules this = Some rs"
  have m: "equals v this
       = Inr (this\<lparr>rules := Some (filter (\<lambda>x. rule_type x \<noteq> lit ''equal'') rs @ [Equal v])\<rparr>)"
    "notEquals v this
       = Inr (this\<lparr>rules := Some (filter (\<lambda>x. rule_type x \<noteq> lit ''notEqual'') rs @ [NotEqual v])\<rparr>)"
    "minLength n this
       = Inr (this\<lparr>rules := Some (filter (\<lambda>x. rule_type x \<noteq> lit ''minLength'') rs @ [MinLength n])\<rparr>)"
    "maxLength n this
       = Inr (this\<lparr>rules := Some (filter (\<lambda>x. rule_type x \<noteq> lit ''maxLength'') rs @ [MaxLength n])\<rparr>)"
    "notEmpty this
       = Inr (this\<lparr>rules := Some (filter (\<lambda>x. rule_type x \<noteq> lit ''minLength'') rs @ [MinLength (Finite 1)])\<rparr>)"
    "empty_method this
       = Inr (this\<lparr>rules := Some (filter (\<lambda>x. rule_type x \<noteq> lit ''maxLength'') rs @ [MaxLength (Finite 0)])\<rparr>)"
    using configure_Some [OF rs, of "CallEquals v"] configure_Some [OF rs, of "CallNotEquals v"]
      configure_Some [OF rs, of "CallMinLength n"] configure_Some [OF rs, of "CallMaxLength n"]
      configure_Some [OF rs, of CallNotEmpty] configure_Some [OF rs, of CallEmpty]
    by simp_all
  show ?thesis
    using m two_calls_same_kind [OF rs, of c' c] fresh_chain [of cs] fresh_chain_count [of cs]
    by simp
qed

theorem replace_by_kind_witness:
  "equals (lit ''b'') \<lparr>rules = Some [Equal (lit ''a''), MinLength (Finite 3), NotEqual (lit ''c'')]\<rparr>
     = Inr \<lparr>rules = Some [MinLength (Finite 3), NotEqual (lit ''c''), Equal (lit ''b'')]\<rparr>
   \<and> notEmpty \<lparr>rules = Some [Equal (lit ''a''), MinLength (Finite 3), NotEqual (lit ''c'')]\<rparr>
     = Inr \<lparr>rules = Some [Equal (lit ''a''), NotEqual (lit ''c''), MinLength (Finite 1)]\<rparr>
   \<and> rule_type (config_rule (CallMaxLength (Finite 7))) = rule_type (config_rule CallEmpty)
   \<and> and_then (configure CallEmpty \<lparr>rules = Some [Equal (lit ''a''), MinLength (Finite 3), NotEqual (lit ''c'')]\<rparr>)
        (configure (CallMaxLength (Finite 7)))
     = Inr \<lparr>rules = Some [Equal (lit ''a''), MinLength (Finite 3), NotEqual (lit ''c''), MaxLength (Finite 7)]\<rparr>
   \<and> distinct (map (\<lambda>c. rule_type (config_rule c)) [CallNotEmpty, CallMaxLength (Finite 20), CallNotEquals (lit ''foo'')])
   \<and> configure_all [CallNotEmpty, CallMaxLength (Finite 20), CallNotEquals (lit ''foo'')] (constructor None)
     = Inr \<lparr>rules = Some [MinLength (Finite 1), MaxLength (Finite 20), NotEqual (lit ''foo'')]\<rparr>"
  using replace_by_kind [of "\<lparr>rules = Some [Equal (lit ''a''), MinLength (Finite 3), NotEqual (lit ''c'')]\<rparr>"
      "[Equal (lit ''a''), MinLength (Finite 3), NotEqual (lit ''c'')]" "lit ''b''" "Finite 0"
      "CallMaxLength (Finite 7)" CallEmpty "[CallNotEmpty, CallMaxLength (Finite 20), CallNotEquals (lit ''foo'')]"]
  by (simp add: lit_def and_then_def maxLength_def empty_method_def assign_rules_def addRule_def)

section \<open>At most one rule of each kind\<close>

text \<open>
  C6. The invariant does not hold after construction from an initial rule list: the
  constructor stores the list as it is given, so a list with two \<open>minLength\<close> rules
  leaves two rules of one kind in the validator, and a later \<open>equals\<close> call, which
  filters its own kind only, keeps both.
\<close>

theorem constructor_keeps_duplicates:
  "rules (constructor (Some [MinLength (Finite 1), MinLength (Finite 2)])) = Some [MinLength (Finite 1), MinLength (Finite 2)]
   \<and> \<not> one_rule_per_kind (constructor (Some [MinLength (Finite 1), MinLength (Finite 2)]))
   \<and> equals (lit ''a'') (constructor (Some [MinLength (Finite 1), MinLength (Finite 2)]))
       = Inr \<lparr>rules = Some [MinLength (Finite 1), MinLength (Finite 2), Equal (lit ''a'')]\<rparr>
   \<and> \<not> one_rule_per_kind \<lparr>rules = Some [MinLength (Finite 1), MinLength (Finite 2), Equal (lit ''a'')]\<rparr>"
  by (simp add: one_rule_per_kind_def constructor_def equals_def assign_rules_def addRule_def
      lit_def)

text \<open>
  The methods themselves keep the invariant: a validator that satisfies it after
  construction (constructed without a list, or from a list without two rules of one kind)
  satisfies it after any sequence of calls.
\<close>

lemma one_rule_per_kind_preserved:
  "one_rule_per_kind (constructor None)
   \<and> (one_rule_per_kind (constructor init) \<longleftrightarrow>
        (case init of Some rs \<Rightarrow> distinct (map rule_type rs) | None \<Rightarrow> True))
   \<and> (one_rule_per_kind (constructor init) \<longrightarrow>
        (\<exists>outs t. run fmt cs (constructor init) = Inr (outs, t) \<and> one_rule_per_kind t))"
proof -
  obtain rs where rs: "rules (constructor init) = Some rs"
    by (simp add: rules_constructor)
  from run_Some [OF rs, where cs = cs and fmt = fmt] obtain outs rs' where
    r: "run fmt cs (constructor init) = Inr (outs, (constructor init)\<lparr>rules := Some rs'\<rparr>)"
    and d: "distinct (map rule_type rs) \<longrightarrow> distinct (map rule_type rs')"
    by blast
  have "one_rule_per_kind (constructor init) \<longrightarrow>
          one_rule_per_kind ((constructor init)\<lparr>rules := Some rs'\<rparr>)"
    using rs d by (simp add: one_rule_per_kind_def)
  then have "one_rule_per_kind (constructor init) \<longrightarrow>
        (\<exists>outs t. run fmt cs (constructor init) = Inr (outs, t) \<and> one_rule_per_kind t)"
    using r by blast
  moreover have "one_rule_per_kind (constructor None)"
    by (simp add: one_rule_per_kind_def rules_constructor)
  moreover have "one_rule_per_kind (constructor init) \<longleftrightarrow>
        (case init of Some rs \<Rightarrow> distinct (map rule_type rs) | None \<Rightarrow> True)"
    by (simp add: one_rule_per_kind_def rules_constructor split: option.split)
  ultimately show ?thesis by blast
qed

lemma one_rule_per_kind_preserved_example:
  "one_rule_per_kind (constructor (Some [MaxLength (Finite 5), MinLength (Finite 3)]))
   \<and> run fmt [Configure CallNotEmpty, Go (JSString (lit ''ab'')), Configure (CallMaxLength (Finite 1))]
        (constructor (Some [MaxLength (Finite 5), MinLength (Finite 3)]))
       = Inr ([Success (lit ''ab'')], \<lparr>rules = Some [MinLength (Finite 1), MaxLength (Finite 1)]\<rparr>)
   \<and> one_rule_per_kind \<lparr>rules = Some [MinLength (Finite 1), MaxLength (Finite 1)]\<rparr>"
  using one_rule_per_kind_preserved [where init = "Some [MaxLength (Finite 5), MinLength (Finite 3)]"
      and cs = "[Configure CallNotEmpty, Go (JSString (lit ''ab'')), Configure (CallMaxLength (Finite 1))]"
      and fmt = fmt]
  by (simp add: one_rule_per_kind_def constructor_def and_then_def notEmpty_def maxLength_def
      assign_rules_def addRule_def go_string string_length_def lit_def)

section \<open>No rules\<close>

text \<open>
  C7. On a validator with no rules, \<open>go\<close> on a string returns success with that very
  string.
\<close>

theorem go_no_rules:
  "go fmt (JSString s) (constructor None) = (Success s, constructor None)
   \<and> go fmt (JSString s) \<lparr>rules = Some []\<rparr> = (Success s, \<lparr>rules = Some []\<rparr>)"
  by (simp add: go_string constructor_def)

section \<open>notEmpty and empty\<close>

text \<open>
  C8. \<open>notEmpty()\<close> is \<open>minLength(1)\<close> and \<open>empty()\<close> is \<open>maxLength(0)\<close>: the
  same result and the same stored rules on every validator. So \<open>notEmpty()\<close> after
  \<open>maxLength(5)\<close> leaves both rules, and \<open>notEmpty()\<close> after \<open>minLength(3)\<close> leaves
  \<open>MinLength 1\<close> as the only rule of its kind.
\<close>

theorem notEmpty_empty_sugar:
  "notEmpty this = minLength (Finite 1) this
   \<and> empty_method this = maxLength (Finite 0) this
   \<and> and_then (maxLength (Finite 5) (constructor None)) notEmpty
       = Inr \<lparr>rules = Some [MaxLength (Finite 5), MinLength (Finite 1)]\<rparr>
   \<and> and_then (minLength (Finite 3) (constructor None)) notEmpty = Inr \<lparr>rules = Some [MinLength (Finite 1)]\<rparr>
   \<and> and_then (maxLength (Finite 5) \<lparr>rules = Some rs\<rparr>) notEmpty
       = Inr \<lparr>rules = Some (filter (\<lambda>x. rule_type x \<noteq> lit ''minLength'')
                               (filter (\<lambda>x. rule_type x \<noteq> lit ''maxLength'') rs)
                             @ [MaxLength (Finite 5), MinLength (Finite 1)])\<rparr>
   \<and> and_then (minLength (Finite 3) \<lparr>rules = Some rs\<rparr>) notEmpty
       = Inr \<lparr>rules = Some (filter (\<lambda>x. rule_type x \<noteq> lit ''minLength'') rs @ [MinLength (Finite 1)])\<rparr>"
  by (simp add: notEmpty_def minLength_def empty_method_def maxLength_def constructor_def
      and_then_def assign_rules_def addRule_def)
     (simp add: lit_def)

section \<open>No exception\<close>

text \<open>
  C9. Construction with or without an initial list, followed by any sequence of
  configuration and \<open>go\<close> calls with any arguments, raises no exception: the run ends
  normally, every \<open>go\<close> call has returned a result, and the rules are never
  \<open>undefined\<close>.
\<close>

theorem never_throws:
  "\<exists>outs t. run fmt cs (constructor init) = Inr (outs, t)
      \<and> length outs = length (filter is_go cs) \<and> rules t \<noteq> None"
proof -
  obtain rs where rs: "rules (constructor init) = Some rs"
    by (simp add: rules_constructor)
  from run_Some [OF rs, where cs = cs and fmt = fmt] show ?thesis
    by force
qed

section \<open>Evaluation leaves the validator alone\<close>

text \<open>
  C10. \<open>go\<close> returns the validator as it received it; its result depends on the
  stored rules and the input only, so two calls in a row with the same input return the same
  result.
\<close>

theorem go_pure:
  "snd (go fmt val this) = this
   \<and> (rules that = rules this \<longrightarrow> fst (go fmt val that) = fst (go fmt val this))
   \<and> run fmt [Go val, Go val] this = Inr ([fst (go fmt val this), fst (go fmt val this)], this)"
proof -
  have "rules that = rules this \<longrightarrow> fst (go fmt val that) = fst (go fmt val this)"
    by (simp add: go_def split: option.split)
  moreover have "run fmt [Go val, Go val] this = Inr ([fst (go fmt val this), fst (go fmt val this)], this)"
    by (simp add: perform_Go and_then_def del: perform.simps)
  ultimately show ?thesis
    by (simp add: snd_go)
qed

theorem go_pure_witness:
  "rules \<lparr>rules = Some [MaxLength (Finite 2)]\<rparr> = rules \<lparr>rules = Some [MaxLength (Finite 2)]\<rparr>
   \<and> go (\<lambda>q. lit ''2.5'') (JSString (lit ''abc'')) \<lparr>rules = Some [MaxLength (Finite 2)]\<rparr>
       = (Failure (lit ''String length must be less than or equal to 2 but was 3.''),
          \<lparr>rules = Some [MaxLength (Finite 2)]\<rparr>)"
  using go_pure [where fmt = "\<lambda>q. lit ''2.5''" and val = "JSString (lit ''abc'')"
      and this = "\<lparr>rules = Some [MaxLength (Finite 2)]\<rparr>"
      and that = "\<lparr>rules = Some [MaxLength (Finite 2)]\<rparr>"]
  by (simp add: go_string string_length_def is_safe_integer_def int_toString_def
      nat_toString.simps digit_def lit_def)

end
